theory Spec2Isabelle
  imports Main
begin

section \<open>Python values, exceptions and library functions\<close>

text \<open>
  The two modules, \<^verbatim>\<open>octoprintcommunication.py\<close> (the class \<^verbatim>\<open>OctoPrintClient\<close>) and
  \<^verbatim>\<open>__main__.py\<close> (the orchestration script), are embedded as state-passing functions.
  Every \<^verbatim>\<open>raise\<close> of the Python is a value \<open>Inl e\<close>; a normal return is \<open>Inr v\<close>;
  Python's \<^verbatim>\<open>None\<close> is \<open>None\<close> of an option type.

  The exception classes the program can meet. \<open>ConnectionError\<close>, \<open>ConnectTimeout\<close> and
  \<open>ReadTimeout\<close> are the classes of \<^verbatim>\<open>requests.exceptions\<close>: \<^verbatim>\<open>ConnectTimeout\<close> is a
  subclass of \<^verbatim>\<open>ConnectionError\<close> (and of \<^verbatim>\<open>Timeout\<close>), \<^verbatim>\<open>ReadTimeout\<close> is a subclass of
  \<^verbatim>\<open>Timeout\<close> only. The clause \<^verbatim>\<open>except ConnectionError\<close> of the source therefore catches
  the first two and lets the third pass.
\<close>

datatype exception =
    ConnectionError | ConnectTimeout | ReadTimeout
  | JSONDecodeError | KeyError | TypeError | IndexError
  | AttributeError | FileNotFoundError | CsvError | ParserError

fun isinstance_ConnectionError :: "exception \<Rightarrow> bool" where
  "isinstance_ConnectionError ConnectionError = True"
| "isinstance_ConnectionError ConnectTimeout = True"
| "isinstance_ConnectionError _ = False"

text \<open>
  A value as \<^verbatim>\<open>json.loads\<close> builds it. A float is represented by its \<^verbatim>\<open>repr\<close>, the
  shortest decimal text that reads back as the same double, which is also what
  \<^verbatim>\<open>str\<close> prints for it; the program never computes with a float.
\<close>

datatype pyval =
    PyNone
  | PyBool bool
  | PyInt int
  | PyFloat string
  | PyStr string
  | PyList "pyval list"
  | PyDict "(string \<times> pyval) list"

text \<open>
  \<^verbatim>\<open>value[key]\<close> with a string key: a dict raises \<^verbatim>\<open>KeyError\<close> for a missing key, every
  other value raises \<^verbatim>\<open>TypeError\<close>.
\<close>

fun getitem :: "pyval \<Rightarrow> string \<Rightarrow> exception + pyval" where
  "getitem (PyDict kvs) k = (case map_of kvs k of Some v \<Rightarrow> Inr v | None \<Rightarrow> Inl KeyError)"
| "getitem _ k = Inl TypeError"

text \<open>\<^verbatim>\<open>xs[i]\<close> on a list with a non-negative index.\<close>

definition index :: "'a list \<Rightarrow> nat \<Rightarrow> exception + 'a" where
  "index xs i = (if i < length xs then Inr (xs ! i) else Inl IndexError)"

text \<open>Sequencing of computations that may raise and touch no state.\<close>

definition andThen :: "exception + 'a \<Rightarrow> ('a \<Rightarrow> exception + 'b) \<Rightarrow> exception + 'b" where
  "andThen m f = (case m of Inl e \<Rightarrow> Inl e | Inr x \<Rightarrow> f x)"

text \<open>\<^verbatim>\<open>str(n)\<close> for an integer: decimal digits, most significant first.\<close>

definition digit_char :: "nat \<Rightarrow> char" where
  "digit_char d = char_of (48 + d)"

function str_nat :: "nat \<Rightarrow> string" where
  "str_nat n = (if n < 10 then [digit_char n] else str_nat (n div 10) @ [digit_char (n mod 10)])"
  by pat_completeness auto
termination
  by (relation "measure (\<lambda>n. n)") auto

declare str_nat.simps [simp del]

definition str_int :: "int \<Rightarrow> string" where
  "str_int i = (if i < 0 then CHR ''-'' # str_nat (nat (- i)) else str_nat (nat i))"

text \<open>
  \<^verbatim>\<open>str(b)\<close> for the result of \<^verbatim>\<open>isPrinterConnected\<close>, which is \<^verbatim>\<open>True\<close>, \<^verbatim>\<open>False\<close> or
  \<^verbatim>\<open>None\<close>.
\<close>

fun str_bool :: "bool \<Rightarrow> string" where
  "str_bool True = ''True''"
| "str_bool False = ''False''"

fun str_connected :: "bool option \<Rightarrow> string" where
  "str_connected None = ''None''"
| "str_connected (Some b) = str_bool b"

text \<open>A table as \<^verbatim>\<open>pandas.read_csv\<close> returns it: the columns by name, each a list of cells.\<close>

type_synonym dataframe = "(string \<times> string list) list"

text \<open>
  The functions of Python's standard library and of pandas that the program calls and
  whose code is not part of the repository are parameters of the model:
  \<^item> \<open>json_loads\<close> is \<^verbatim>\<open>json.loads\<close> on a string;
  \<^item> \<open>repr\<close> is \<^verbatim>\<open>str\<close> on a list or a dict;
  \<^item> \<open>csv_reader\<close> is \<^verbatim>\<open>list(csv.reader(f))\<close> on the text of the file, with the default
    dialect (delimiter comma): the rows, each a list of fields;
  \<^item> \<open>csv_sniff\<close> is \<^verbatim>\<open>csv.Sniffer().sniff(sample).delimiter\<close>;
  \<^item> \<open>read_csv\<close> is \<^verbatim>\<open>pandas.read_csv(path, sep=delimiter, header=header)\<close> on the text
    of the file.
\<close>

record python =
  json_loads :: "string \<Rightarrow> exception + pyval"
  repr :: "pyval \<Rightarrow> string"
  csv_reader :: "string \<Rightarrow> exception + string list list"
  csv_sniff :: "string \<Rightarrow> exception + char"
  read_csv :: "string \<Rightarrow> char \<Rightarrow> nat \<Rightarrow> exception + dataframe"

fun str :: "python \<Rightarrow> pyval \<Rightarrow> string" where
  "str py PyNone = ''None''"
| "str py (PyBool b) = str_bool b"
| "str py (PyInt i) = str_int i"
| "str py (PyFloat r) = r"
| "str py (PyStr s) = s"
| "str py v = repr py v"

text \<open>\<^verbatim>\<open>json.loads(s)\<close> where \<^verbatim>\<open>s\<close> may be \<^verbatim>\<open>None\<close>: \<^verbatim>\<open>json.loads(None)\<close> raises \<^verbatim>\<open>TypeError\<close>.\<close>

definition loads :: "python \<Rightarrow> string option \<Rightarrow> exception + pyval" where
  "loads py s = (case s of None \<Rightarrow> Inl TypeError | Some t \<Rightarrow> json_loads py t)"

section \<open>The world: network, log and console\<close>

datatype http_method = GET | POST

text \<open>
  One call of \<^verbatim>\<open>requests.get\<close> or \<^verbatim>\<open>requests.post\<close>. The program always passes
  \<^verbatim>\<open>timeout=1\<close> and never passes \<^verbatim>\<open>data\<close>, so neither is recorded.
\<close>

record request =
  meth :: http_method
  url :: string
  headers :: "(string \<times> string) list option"
  json :: "(string \<times> string) list option"

record response =
  resp_text :: string
  status_code :: int

datatype outcome = Responds response | Throws exception

datatype log_entry = LogMsg string | LogExc exception

text \<open>
  The program runs sequentially, so the network is fully described by what the k-th
  HTTP call of the run meets, given the request it sends: \<open>network w k rq\<close>. The calls
  made so far are recorded in \<open>calls\<close>, oldest first; \<open>logged\<close> holds the entries written
  by \<^verbatim>\<open>logger.error\<close> and \<open>stdout\<close> the lines written by \<^verbatim>\<open>print\<close>.
\<close>

record world =
  network :: "nat \<Rightarrow> request \<Rightarrow> outcome"
  calls :: "request list"
  logged :: "log_entry list"
  stdout :: "string list"

text \<open>
  A computation over a state \<open>'s\<close> that returns or raises. An exception keeps the state
  reached when it was raised: the calls made and the lines logged stay made.
\<close>

type_synonym ('a, 's) comp = "'s \<Rightarrow> (exception + 'a) \<times> 's"

type_synonym 'a prog = "('a, world) comp"

definition ret :: "'a \<Rightarrow> ('a, 's) comp" where
  "ret x s = (Inr x, s)"

definition bnd :: "('a, 's) comp \<Rightarrow> ('a \<Rightarrow> ('b, 's) comp) \<Rightarrow> ('b, 's) comp" where
  "bnd m f s = (case m s of (Inl e, s') \<Rightarrow> (Inl e, s') | (Inr x, s') \<Rightarrow> f x s')"

definition lift :: "exception + 'a \<Rightarrow> ('a, 's) comp" where
  "lift r s = (r, s)"

definition logger_error :: "log_entry \<Rightarrow> unit prog" where
  "logger_error e w = (Inr (), w\<lparr>logged := logged w @ [e]\<rparr>)"

definition print :: "string \<Rightarrow> unit prog" where
  "print s w = (Inr (), w\<lparr>stdout := stdout w @ [s]\<rparr>)"

text \<open>
  \<^verbatim>\<open>requests.get\<close> and \<^verbatim>\<open>requests.post\<close>: the call is recorded and meets what the network
  holds for it.
\<close>

definition requests :: "request \<Rightarrow> response prog" where
  "requests rq w =
     (case network w (length (calls w)) rq of
        Responds r \<Rightarrow> (Inr r, w\<lparr>calls := calls w @ [rq]\<rparr>)
      | Throws e \<Rightarrow> (Inl e, w\<lparr>calls := calls w @ [rq]\<rparr>))"

section \<open>The class OctoPrintClient\<close>

text \<open>
  The attributes set by \<^verbatim>\<open>__init__\<close>. The script fills them from the printer list; they
  are taken to be text, as the concatenations \<^verbatim>\<open>"http://" + self.ipAddress\<close> need. The
  logger is the one log of the world.
\<close>

record OctoPrintClient =
  ipAddress :: string
  apiKey :: string
  username :: string
  password :: string

text \<open>
  The methods \<^verbatim>\<open>login\<close>, \<^verbatim>\<open>logout\<close>, \<^verbatim>\<open>disconnectFromPrinter\<close>, \<^verbatim>\<open>getCurrentPrintJob\<close> and
  \<^verbatim>\<open>printDebugInfo\<close> are never called by the script and are left out.

  \<^verbatim>\<open>get\<close>: the \<^verbatim>\<open>try\<close> returns the response; \<^verbatim>\<open>except ConnectionError\<close> logs the message (and
  prints the \<^verbatim>\<open>None\<close> that \<^verbatim>\<open>logger.error\<close> returns), logs the exception, and falls off the
  end of the function, which returns \<^verbatim>\<open>None\<close>. Any other exception propagates.
\<close>

definition get :: "string \<Rightarrow> (string \<times> string) list option \<Rightarrow> response option prog" where
  "get u hdrs w =
     (case requests \<lparr>meth = GET, url = u, headers = hdrs, json = None\<rparr> w of
        (Inr r, w') \<Rightarrow> (Inr (Some r), w')
      | (Inl e, w') \<Rightarrow>
          if isinstance_ConnectionError e
          then bnd (logger_error (LogMsg ''Cannot connect to Raspberry Pi''))
                 (\<lambda>_. bnd (print ''None'')
                 (\<lambda>_. bnd (logger_error (LogExc e))
                 (\<lambda>_. ret None))) w'
          else (Inl e, w'))"

definition post ::
  "string \<Rightarrow> (string \<times> string) list option \<Rightarrow> (string \<times> string) list option \<Rightarrow> response option prog"
where
  "post u hdrs js w =
     (case requests \<lparr>meth = POST, url = u, headers = hdrs, json = js\<rparr> w of
        (Inr r, w') \<Rightarrow> (Inr (Some r), w')
      | (Inl e, w') \<Rightarrow>
          if isinstance_ConnectionError e
          then bnd (logger_error (LogMsg ''Cannot connect to Raspberry Pi''))
                 (\<lambda>_. bnd (logger_error (LogExc e))
                 (\<lambda>_. ret None)) w'
          else (Inl e, w'))"

definition connectToPrinter :: "OctoPrintClient \<Rightarrow> int option prog" where
  "connectToPrinter self =
     bnd (post (''http://'' @ ipAddress self @ ''/api/connection'')
            (Some [(''Content-Type'', ''application/json''), (''X-Api-Key'', apiKey self)])
            (Some [(''command'', ''connect'')]))
       (\<lambda>r. case r of
          Some resp \<Rightarrow> ret (Some (status_code resp))
        | None \<Rightarrow>
            bnd (logger_error (LogMsg (ipAddress self @ '' ConnectToPrinter response: No connection to Pi'')))
              (\<lambda>_. ret None))"

text \<open>
  \<^verbatim>\<open>isPrinterConnected\<close>: \<^verbatim>\<open>True\<close>, \<^verbatim>\<open>False\<close>, or \<^verbatim>\<open>None\<close> after logging when \<^verbatim>\<open>get\<close>
  returned \<^verbatim>\<open>None\<close>. \<^verbatim>\<open>json.loads\<close> and the two subscripts may raise.
\<close>

definition isPrinterConnected :: "python \<Rightarrow> OctoPrintClient \<Rightarrow> bool option prog" where
  "isPrinterConnected py self =
     bnd (get (''http://'' @ ipAddress self @ ''/api/connection'')
            (Some [(''X-Api-Key'', apiKey self)]))
       (\<lambda>r. case r of
          Some resp \<Rightarrow>
            bnd (lift (json_loads py (resp_text resp)))
              (\<lambda>rJson. bnd (lift (andThen (getitem rJson ''current'') (\<lambda>c. getitem c ''state'')))
              (\<lambda>state. ret (Some (state = PyStr ''Operational''))))
        | None \<Rightarrow>
            bnd (logger_error (LogMsg (ipAddress self @ '' isPrinterConnected response: No connection to Pi'')))
              (\<lambda>_. ret None))"

text \<open>
  \<^verbatim>\<open>getPrinterStatus\<close>: \<^verbatim>\<open>json.loads(r.text)\<close> runs before the text is compared with
  \<^verbatim>\<open>"Printer is not operational"\<close>. In that branch the message is printed and
  \<^verbatim>\<open>logger.error\<close> receives the \<^verbatim>\<open>None\<close> that \<^verbatim>\<open>print\<close> returns.
\<close>

definition getPrinterStatus :: "python \<Rightarrow> OctoPrintClient \<Rightarrow> string option prog" where
  "getPrinterStatus py self =
     bnd (print (''Accessing '' @ (''http://'' @ ipAddress self @ ''/api/printer'')
                  @ '' using API Key '' @ apiKey self))
       (\<lambda>_. bnd (get (''http://'' @ ipAddress self @ ''/api/printer'')
                   (Some [(''X-Api-Key'', apiKey self)]))
       (\<lambda>r. case r of
          Some resp \<Rightarrow>
            bnd (lift (json_loads py (resp_text resp)))
              (\<lambda>rJson.
                 if resp_text resp = ''Printer is not operational''
                 then bnd (print (''Printer '' @ ipAddress self @ '' is not operational''))
                        (\<lambda>_. bnd (logger_error (LogMsg ''None''))
                        (\<lambda>_. ret None))
                 else ret (Some (resp_text resp)))
        | None \<Rightarrow>
            bnd (logger_error (LogMsg (ipAddress self @ '' getPrinterStatus response: No connection to Pi'')))
              (\<lambda>_. ret None)))"

definition selectPrintJob :: "OctoPrintClient \<Rightarrow> string \<Rightarrow> string option prog" where
  "selectPrintJob self gcodePath =
     bnd (post (''http://'' @ ipAddress self @ gcodePath)
            (Some [(''Content-Type'', ''application/json''), (''X-Api-Key'', apiKey self)])
            (Some [(''command'', ''select'')]))
       (\<lambda>r. case r of
          Some resp \<Rightarrow> ret (Some (resp_text resp))
        | None \<Rightarrow> ret None)"

definition startPrintJob :: "python \<Rightarrow> OctoPrintClient \<Rightarrow> string option prog" where
  "startPrintJob py self =
     bnd (post (''http://'' @ ipAddress self @ ''/api/job'')
            (Some [(''Content-Type'', ''application/json''), (''X-Api-Key'', apiKey self)])
            (Some [(''command'', ''start'')]))
       (\<lambda>r. case r of
          Some resp \<Rightarrow> ret (Some (resp_text resp))
        | None \<Rightarrow>
            bnd (isPrinterConnected py self)
              (\<lambda>c. if c = Some True
                    then bnd (logger_error (LogMsg (ipAddress self @ '' startPrintJob response: ''
                                 @ ''Could not start print job. Printer might be busy'')))
                           (\<lambda>_. ret None)
                    else bnd (logger_error (LogMsg (ipAddress self @ '' startPrintJob response: ''
                                 @ '' Could not start print job. No connection to Pi'')))
                           (\<lambda>_. ret None)))"

section \<open>The script: connect, status, commands\<close>

text \<open>
  The script works on the world and on the files it opens. Files are a map from path to
  content; a write is modelled as reaching the file at once, and opening for writing
  always succeeds (the directory \<^verbatim>\<open>PrinterStatus\<close> is taken to exist).
\<close>

type_synonym filesystem = "string \<Rightarrow> string option"

type_synonym 'a script = "('a, world \<times> filesystem) comp"

definition on_world :: "'a prog \<Rightarrow> 'a script" where
  "on_world m s = (case m (fst s) of (r, w') \<Rightarrow> (r, (w', snd s)))"

text \<open>\<^verbatim>\<open>open(path, 'w+')\<close> creates the file or truncates it; \<^verbatim>\<open>f.write(s)\<close> appends.\<close>

definition open_w :: "string \<Rightarrow> unit script" where
  "open_w path s = (Inr (), (fst s, (snd s)(path \<mapsto> [])))"

definition write_file :: "string \<Rightarrow> string \<Rightarrow> unit script" where
  "write_file path t s =
     (Inr (), (fst s, (snd s)(path \<mapsto> (case snd s path of None \<Rightarrow> t | Some c \<Rightarrow> c @ t))))"

text \<open>\<^verbatim>\<open>open(path, 'r')\<close> and reading the whole file.\<close>

definition read_file :: "string \<Rightarrow> string script" where
  "read_file path s =
     (case snd s path of None \<Rightarrow> (Inl FileNotFoundError, s) | Some c \<Rightarrow> (Inr c, s))"

text \<open>
  The truth value of \<^verbatim>\<open>opc.isPrinterConnected\<close> written without call parentheses: the
  expression is the bound method object, which Python counts as true; the method is not
  called.
\<close>

definition truth_of_method :: "'a \<Rightarrow> bool" where
  "truth_of_method m = True"

fun str_response :: "int option \<Rightarrow> string" where
  "str_response None = ''None''"
| "str_response (Some n) = str_int n"

fun connectToPrinters :: "python \<Rightarrow> OctoPrintClient list \<Rightarrow> unit prog" where
  "connectToPrinters py [] = ret ()"
| "connectToPrinters py (opc # opcs) =
     bnd (if \<not> truth_of_method (isPrinterConnected py opc)
          then bnd (connectToPrinter opc) (\<lambda>response. print (''HTTP '' @ str_response response))
          else ret ())
       (\<lambda>_. connectToPrinters py opcs)"

definition opcStatusFields :: string where
  "opcStatusFields =
     ''IP;Connected;Printing;Ready;Operational;Pausing;Paused;Finishing;NozzleTemp;BedTemp\<newline>''"

definition path_statusCsv :: string where
  "path_statusCsv = ''PrinterStatus/PrinterStatus.csv''"

definition path_statusTxt :: "nat \<Rightarrow> string" where
  "path_statusTxt i = ''PrinterStatus/'' @ ''printer'' @ str_nat i @ ''.txt''"

text \<open>\<^verbatim>\<open>opcSJ['state']['flags'][k]\<close> and \<^verbatim>\<open>opcSJ['temperature'][k]['actual']\<close>.\<close>

definition flag :: "pyval \<Rightarrow> string \<Rightarrow> exception + pyval" where
  "flag opcSJ k =
     andThen (getitem opcSJ ''state'') (\<lambda>s. andThen (getitem s ''flags'') (\<lambda>f. getitem f k))"

definition actual :: "pyval \<Rightarrow> string \<Rightarrow> exception + pyval" where
  "actual opcSJ k =
     andThen (getitem opcSJ ''temperature'') (\<lambda>t. andThen (getitem t k) (\<lambda>h. getitem h ''actual''))"

text \<open>
  The row of a connected printer (lines 100 to 111): the subscripts are evaluated from
  left to right, and the first that fails raises.
\<close>

definition connected_row ::
  "python \<Rightarrow> OctoPrintClient \<Rightarrow> bool option \<Rightarrow> pyval \<Rightarrow> exception + string" where
  "connected_row py opc printerIsConnected opcSJ =
     andThen (flag opcSJ ''printing'') (\<lambda>printing.
     andThen (flag opcSJ ''ready'') (\<lambda>ready.
     andThen (flag opcSJ ''operational'') (\<lambda>operational.
     andThen (flag opcSJ ''pausing'') (\<lambda>pausing.
     andThen (flag opcSJ ''paused'') (\<lambda>paused.
     andThen (flag opcSJ ''finishing'') (\<lambda>finishing.
     andThen (actual opcSJ ''bed'') (\<lambda>bed.
     andThen (actual opcSJ ''tool0'') (\<lambda>tool0.
       Inr (ipAddress opc @ '';'' @
            str_connected printerIsConnected @ '';'' @
            str py printing @ '';'' @
            str py ready @ '';'' @
            str py operational @ '';'' @
            str py pausing @ '';'' @
            str py paused @ '';'' @
            str py finishing @ '';'' @
            str py bed @ '';'' @
            str py tool0)))))))))"

text \<open>The row of a printer that is not connected (lines 114 to 124).\<close>

definition not_connected_row :: "OctoPrintClient \<Rightarrow> bool option \<Rightarrow> string" where
  "not_connected_row opc printerIsConnected =
     ipAddress opc @ '';'' @
     str_connected printerIsConnected @ '';'' @
     '';'' @ '';'' @ '';'' @ '';'' @ '';'' @ '';'' @ '';''"

text \<open>
  Lines 95 to 124 of the loop body: poll the printer and build \<^verbatim>\<open>opcStatus\<close> and
  \<^verbatim>\<open>opcStatusString\<close>. \<^verbatim>\<open>if printerIsConnected\<close> holds for \<^verbatim>\<open>True\<close> only.
\<close>

definition opcStatusString :: "python \<Rightarrow> OctoPrintClient \<Rightarrow> (string option \<times> string) prog" where
  "opcStatusString py opc =
     bnd (isPrinterConnected py opc) (\<lambda>printerIsConnected.
       if printerIsConnected = Some True
       then bnd (getPrinterStatus py opc) (\<lambda>opcStatus.
            bnd (lift (loads py opcStatus)) (\<lambda>opcSJ.
            bnd (lift (connected_row py opc printerIsConnected opcSJ)) (\<lambda>row.
            ret (opcStatus, row))))
       else ret (Some ''Not connected to Pi!'', not_connected_row opc printerIsConnected))"

text \<open>
  Lines 131 to 133: the status is printed when \<^verbatim>\<open>verbose\<close> is set. The concatenation
  raises \<^verbatim>\<open>TypeError\<close> if \<^verbatim>\<open>opcStatus\<close> is \<^verbatim>\<open>None\<close>.
\<close>

definition report :: "bool \<Rightarrow> OctoPrintClient \<Rightarrow> string option \<Rightarrow> unit prog" where
  "report verbose opc opcStatus =
     (if verbose
      then (case opcStatus of
              None \<Rightarrow> lift (Inl TypeError)
            | Some t \<Rightarrow> print (ipAddress opc @ '' printer status: '' @ t))
      else ret ())"

text \<open>
  Lines 125 to 133: append the row to the table, rewrite the printer's own file, and
  report.
\<close>

definition emit_status :: "bool \<Rightarrow> nat \<Rightarrow> OctoPrintClient \<Rightarrow> string option \<times> string \<Rightarrow> unit script" where
  "emit_status verbose i opc st =
     bnd (write_file path_statusCsv (snd st @ ''\<newline>'')) (\<lambda>_.
     bnd (open_w (path_statusTxt i)) (\<lambda>_.
     bnd (write_file (path_statusTxt i) (opcStatusFields @ snd st)) (\<lambda>_.
     on_world (report verbose opc (fst st)))))"

text \<open>The body of the loop over \<^verbatim>\<open>enumerate(opcs)\<close>, and the loop.\<close>

definition status_entry :: "python \<Rightarrow> bool \<Rightarrow> nat \<Rightarrow> OctoPrintClient \<Rightarrow> unit script" where
  "status_entry py verbose i opc =
     bnd (on_world (opcStatusString py opc)) (emit_status verbose i opc)"

fun status_loop :: "python \<Rightarrow> bool \<Rightarrow> nat \<Rightarrow> OctoPrintClient list \<Rightarrow> unit script" where
  "status_loop py verbose i [] = ret ()"
| "status_loop py verbose i (opc # opcs) =
     bnd (status_entry py verbose i opc) (\<lambda>_. status_loop py verbose (Suc i) opcs)"

text \<open>
  \<^verbatim>\<open>updatePrinterStatus\<close>: the table is opened with mode \<^verbatim>\<open>'w+'\<close>, the header is written,
  the loop runs. The closing of the file changes nothing in the model.
\<close>

definition updatePrinterStatus :: "python \<Rightarrow> bool \<Rightarrow> OctoPrintClient list \<Rightarrow> unit script" where
  "updatePrinterStatus py verbose opcs =
     bnd (open_w path_statusCsv) (\<lambda>_.
     bnd (write_file path_statusCsv opcStatusFields) (\<lambda>_.
     status_loop py verbose 0 opcs))"

text \<open>\<^verbatim>\<open>dataframe.Name\<close>: the column, or \<^verbatim>\<open>AttributeError\<close> when the table has none.\<close>

definition column :: "dataframe \<Rightarrow> string \<Rightarrow> exception + string list" where
  "column df name = (case map_of df name of None \<Rightarrow> Inl AttributeError | Some c \<Rightarrow> Inr c)"

text \<open>
  \<^verbatim>\<open>getCommandList\<close>. \<^verbatim>\<open>list(csvData)\<close> reads the file to its end, so the
  \<^verbatim>\<open>csvfile.read(1024)\<close> of the last branch returns the empty string, which is what the
  sniffer is given. \<^verbatim>\<open>print\<close> with two arguments puts a space between them.
\<close>

definition getCommandList :: "python \<Rightarrow> string \<Rightarrow> bool \<Rightarrow> string list list script" where
  "getCommandList py path_PrinterCommands verbose =
     bnd (read_file path_PrinterCommands) (\<lambda>content.
     bnd (lift (csv_reader py content)) (\<lambda>csvDataList.
     bnd (lift (andThen (index csvDataList 0) (\<lambda>row. index row 0))) (\<lambda>first.
     bnd (if verbose
          then on_world (print (''First row in command CSV: '' @ '' '' @ first))
          else ret ()) (\<lambda>_.
     bnd (if first = ''sep=;'' then ret (CHR '';'', 1)
          else if first = ''sep=,'' then ret (CHR '','', 1)
          else bnd (lift (csv_sniff py [])) (\<lambda>delimiter. ret (delimiter, 0))) (\<lambda>dh.
     bnd (lift (read_csv py content (fst dh) (snd dh))) (\<lambda>dataframe.
     bnd (lift (column dataframe ''IP_Address'')) (\<lambda>ipList.
     bnd (lift (column dataframe ''Command'')) (\<lambda>commandList.
     bnd (lift (column dataframe ''Argument'')) (\<lambda>argumentList.
     ret [ipList, commandList, argumentList])))))))))"

text \<open>
  The command loop of the main script (lines 191 to 197). \<^verbatim>\<open>commandList[k][i]\<close> raises
  \<^verbatim>\<open>IndexError\<close> past the end of either list.
\<close>

definition cell :: "string list list \<Rightarrow> nat \<Rightarrow> nat \<Rightarrow> exception + string" where
  "cell commandList k i = andThen (index commandList k) (\<lambda>l. index l i)"

definition run_command :: "python \<Rightarrow> string list list \<Rightarrow> nat \<Rightarrow> OctoPrintClient \<Rightarrow> unit prog" where
  "run_command py commandList i opc =
     (if truth_of_method (isPrinterConnected py opc)
      then bnd (lift (cell commandList 0 i)) (\<lambda>ip.
           if ip = ipAddress opc
           then bnd (lift (cell commandList 1 i)) (\<lambda>command.
                if command = ''print''
                then bnd (lift (cell commandList 2 i)) (\<lambda>argument.
                     bnd (selectPrintJob opc argument) (\<lambda>_.
                     bnd (startPrintJob py opc) (\<lambda>_. ret ())))
                else ret ())
           else ret ())
      else ret ())"

fun run_commands :: "python \<Rightarrow> string list list \<Rightarrow> nat \<Rightarrow> OctoPrintClient list \<Rightarrow> unit prog" where
  "run_commands py commandList i [] = ret ()"
| "run_commands py commandList i (opc # opcs) =
     bnd (run_command py commandList i opc) (\<lambda>_. run_commands py commandList (Suc i) opcs)"

text \<open>
  The main script after \<^verbatim>\<open>importPrinterList\<close>, which fills \<^verbatim>\<open>opcs\<close> and is not modelled:
  the registry is a parameter. \<^verbatim>\<open>sleep(10)\<close> has no effect on the state. An exception
  that leaves one phase ends the script, so the later phases do not run.
\<close>

definition main :: "python \<Rightarrow> string \<Rightarrow> bool \<Rightarrow> OctoPrintClient list \<Rightarrow> unit script" where
  "main py path_PrinterCommands verbose opcs =
     bnd (on_world (connectToPrinters py opcs)) (\<lambda>_.
     bnd (updatePrinterStatus py verbose opcs) (\<lambda>_.
     bnd (getCommandList py path_PrinterCommands verbose) (\<lambda>commandList.
     on_world (run_commands py commandList 0 opcs))))"

section \<open>Notions used to state the properties\<close>

text \<open>
  The rows of one run of the status loop: the \<^verbatim>\<open>opcStatusString\<close> built for each printer
  in turn, up to the first printer at which an exception leaves the loop (that printer's
  row counts if it had been written before). It follows the world only, not the files.
\<close>

fun status_rows :: "python \<Rightarrow> bool \<Rightarrow> OctoPrintClient list \<Rightarrow> world \<Rightarrow> string list" where
  "status_rows py verbose [] w = []"
| "status_rows py verbose (opc # opcs) w =
     (case opcStatusString py opc w of
        (Inl e, w1) \<Rightarrow> []
      | (Inr st, w1) \<Rightarrow>
          snd st #
          (case report verbose opc (fst st) w1 of
             (Inl e, w2) \<Rightarrow> []
           | (Inr u, w2) \<Rightarrow> status_rows py verbose opcs w2))"


subsection \<open>Example inputs\<close>

text \<open>
  The registry of the specification's end-to-end scenario, a second printer, and the
  bodies a controller sends: the connection state and the printer status.
\<close>

definition printer1 :: OctoPrintClient where
  "printer1 = \<lparr>ipAddress = ''10.0.0.5'', apiKey = ''K1'', username = ''u'', password = ''p''\<rparr>"

definition printer2 :: OctoPrintClient where
  "printer2 = \<lparr>ipAddress = ''10.0.0.6'', apiKey = ''K2'', username = ''u'', password = ''p''\<rparr>"

definition operational_body :: response where
  \<open>operational_body = \<lparr>resp_text = ''{"current": {"state": "Operational"}}'', status_code = 200\<rparr>\<close>

definition closed_body :: response where
  \<open>closed_body = \<lparr>resp_text = ''{"current": {"state": "Closed"}}'', status_code = 200\<rparr>\<close>

definition status_body :: response where
  \<open>status_body = \<lparr>resp_text =
     ''{"state": {"flags": {"printing": false, "ready": true, "operational": true, '' @
     ''"pausing": false, "paused": false, "finishing": false}}, '' @
     ''"temperature": {"bed": {"actual": 60.2}, "tool0": {"actual": 210.0}}}'',
     status_code = 200\<rparr>\<close>

definition status_value :: pyval where
  "status_value =
     PyDict [
       (''state'', PyDict [(''flags'', PyDict [
          (''printing'', PyBool False), (''ready'', PyBool True), (''operational'', PyBool True),
          (''pausing'', PyBool False), (''paused'', PyBool False), (''finishing'', PyBool False)])]),
       (''temperature'', PyDict [
          (''bed'', PyDict [(''actual'', PyFloat ''60.2'')]),
          (''tool0'', PyDict [(''actual'', PyFloat ''210.0'')])])]"

text \<open>
  A library for the examples: \<open>json_loads\<close> gives the three bodies above the values
  \<^verbatim>\<open>json.loads\<close> gives them and rejects every other text the examples meet (none of which
  is JSON); the examples never reach the other four functions.
\<close>

definition example_python :: python where
  "example_python =
     \<lparr>json_loads = (\<lambda>t.
        if t = resp_text operational_body
          then Inr (PyDict [(''current'', PyDict [(''state'', PyStr ''Operational'')])])
        else if t = resp_text closed_body
          then Inr (PyDict [(''current'', PyDict [(''state'', PyStr ''Closed'')])])
        else if t = resp_text status_body then Inr status_value
        else Inl JSONDecodeError),
      repr = (\<lambda>v. []),
      csv_reader = (\<lambda>t. Inr []),
      csv_sniff = (\<lambda>t. Inl CsvError),
      read_csv = (\<lambda>t d h. Inl ParserError)\<rparr>"

text \<open>
  Four networks: one on which the first printer is connected and reports its status, one
  that refuses every connection, one on which every call runs into
  the read timeout, and one on which the first printer answers the connection request
  and nothing else can be reached.
\<close>

definition healthy :: "nat \<Rightarrow> request \<Rightarrow> outcome" where
  "healthy k rq =
     (if url rq = ''http://10.0.0.5/api/connection'' then Responds operational_body
      else Responds status_body)"

definition refusing :: "nat \<Rightarrow> request \<Rightarrow> outcome" where
  "refusing k rq = Throws ConnectionError"

definition stalling :: "nat \<Rightarrow> request \<Rightarrow> outcome" where
  "stalling k rq = Throws ReadTimeout"

definition status_unreachable :: "nat \<Rightarrow> request \<Rightarrow> outcome" where
  "status_unreachable k rq =
     (if url rq = ''http://10.0.0.5/api/connection'' then Responds operational_body
      else Throws ConnectionError)"

text \<open>A world in which nothing has happened yet, on a given network.\<close>

definition fresh :: "(nat \<Rightarrow> request \<Rightarrow> outcome) \<Rightarrow> world" where
  "fresh net = \<lparr>network = net, calls = [], logged = [], stdout = []\<rparr>"

section \<open>Unfolding rules\<close>

lemmas comp_simps = ret_def bnd_def lift_def logger_error_def print_def requests_def

lemmas client_simps = get_def post_def connectToPrinter_def isPrinterConnected_def
  getPrinterStatus_def selectPrintJob_def startPrintJob_def


lemmas example_simps = printer1_def printer2_def operational_body_def closed_body_def
  status_body_def status_value_def example_python_def fresh_def healthy_def refusing_def
  stalling_def status_unreachable_def

section \<open>The paths of the status files are distinct\<close>





lemma path_statusTxt_not_csv:
  "path_statusTxt i \<noteq> path_statusCsv" "path_statusCsv \<noteq> path_statusTxt i"
  by (simp_all add: path_statusTxt_def path_statusCsv_def)


section \<open>The connect phase\<close>

text \<open>
  C5. The claim: in the connect phase every printer that is not yet connected receives a
  \<^verbatim>\<open>connect\<close> command (POST \<^verbatim>\<open>/api/connection\<close>). The code tests
  \<^verbatim>\<open>not opc.isPrinterConnected\<close>, the method object and not its result, so the test is
  false for every printer: \<^verbatim>\<open>connectToPrinters\<close> returns without a single HTTP call,
  log entry or printed line, whatever the registry and whatever the printers' states.
\<close>

theorem connectToPrinters_no_call:
  "connectToPrinters py opcs w = (Inr (), w)"
  by (induction opcs) (simp_all add: truth_of_method_def bnd_def ret_def)

section \<open>The command phase\<close>

text \<open>
  C1. The claim: a printer receives \<^verbatim>\<open>selectPrintJob\<close> and \<^verbatim>\<open>startPrintJob\<close> only if it was
  polled as connected. The loop tests \<^verbatim>\<open>opc.isPrinterConnected\<close> without calling it, so
  the state of the printer is never asked: on a network where every call is answered
  with \<open>r\<close>, a printer whose command matches receives both POSTs, also when \<open>r\<close> makes
  \<^verbatim>\<open>isPrinterConnected()\<close> return \<^verbatim>\<open>False\<close>.
\<close>

theorem run_commands_ignores_connection:
  "fst (isPrinterConnected
         (py\<lparr>json_loads := \<lambda>t. Inr (PyDict [(''current'', PyDict [(''state'', PyStr ''Closed'')])])\<rparr>)
         opc (w\<lparr>network := \<lambda>k rq. Responds r\<rparr>)) = Inr (Some False)
   \<and>
   run_commands
     (py\<lparr>json_loads := \<lambda>t. Inr (PyDict [(''current'', PyDict [(''state'', PyStr ''Closed'')])])\<rparr>)
     [[ipAddress opc], [''print''], [argument]] 0 [opc] (w\<lparr>network := \<lambda>k rq. Responds r\<rparr>)
   = (Inr (), w\<lparr>network := \<lambda>k rq. Responds r,
        calls := calls w @
         [\<lparr>meth = POST, url = ''http://'' @ ipAddress opc @ argument,
           headers = Some [(''Content-Type'', ''application/json''), (''X-Api-Key'', apiKey opc)],
           json = Some [(''command'', ''select'')]\<rparr>,
          \<lparr>meth = POST, url = ''http://'' @ ipAddress opc @ ''/api/job'',
           headers = Some [(''Content-Type'', ''application/json''), (''X-Api-Key'', apiKey opc)],
           json = Some [(''command'', ''start'')]\<rparr>]\<rparr>)"
  by (simp add: comp_simps client_simps andThen_def run_command_def cell_def index_def
        truth_of_method_def)

text \<open>
  A command list with fewer entries than there are printers: the loop runs as it does on
  the printers that have an entry, and then the subscript raises.
\<close>

lemma run_commands_short:
  "i \<le> length ips \<Longrightarrow> length ips < i + length opcs \<Longrightarrow>
   run_commands py [ips, cmds, args] i opcs w =
     (case run_commands py [ips, cmds, args] i (take (length ips - i) opcs) w of
        (Inl e, w') \<Rightarrow> (Inl e, w')
      | (Inr u, w') \<Rightarrow> (Inl IndexError, w'))"
proof (induction opcs arbitrary: i w)
  case Nil
  then show ?case by simp
next
  case (Cons opc opcs)
  show ?case
  proof (cases "i = length ips")
    case True
    then show ?thesis
      by (simp add: run_command_def truth_of_method_def cell_def index_def andThen_def comp_simps)
  next
    case False
    with Cons.prems have lt: "i < length ips" by simp
    then obtain n where n: "length ips - i = Suc n"
      by (cases "length ips - i") auto
    have IH: "\<And>w. run_commands py [ips, cmds, args] (Suc i) opcs w =
        (case run_commands py [ips, cmds, args] (Suc i) (take (length ips - Suc i) opcs) w of
           (Inl e, w') \<Rightarrow> (Inl e, w')
         | (Inr u, w') \<Rightarrow> (Inl IndexError, w'))"
      using Cons.IH [of "Suc i"] Cons.prems lt by simp
    have n': "length ips - Suc i = n" using n by simp
    show ?thesis
      unfolding n
      apply (simp add: bnd_def split: prod.splits sum.splits)
      using IH n' by (auto simp: bnd_def split: prod.splits sum.splits)
  qed
qed

text \<open>
  C9, as the code has it. If the command list holds fewer records than the registry holds
  printers, the loop never returns normally and no printer past the end of the list
  receives a call: the loop behaves on the first \<open>length ips\<close> printers as it would on a
  registry of just these; if that run raises, the loop raises the same exception in the
  same state; if it returns, the loop raises \<^verbatim>\<open>IndexError\<close> at the first position past the
  end of the list, in the state reached there.
\<close>

theorem run_commands_short_list:
  "length ips < length opcs \<Longrightarrow>
   run_commands py [ips, cmds, args] 0 opcs w =
     (case run_commands py [ips, cmds, args] 0 (take (length ips) opcs) w of
        (Inl e, w') \<Rightarrow> (Inl e, w')
      | (Inr u, w') \<Rightarrow> (Inl IndexError, w'))"
  using run_commands_short [of 0 ips opcs py cmds args w] by simp

text \<open>
  An instance: two printers and one command. The first printer receives its two POSTs,
  then the loop raises \<^verbatim>\<open>IndexError\<close>; the second printer receives nothing.
\<close>

theorem run_commands_short_list_witness:
  "run_commands example_python [[''10.0.0.5''], [''print''], [''/api/files/local/part.gcode'']] 0
     [printer1, printer2] (fresh (\<lambda>k rq. Responds \<lparr>resp_text = [], status_code = 204\<rparr>))
   = (Inl IndexError,
      \<lparr>network = (\<lambda>k rq. Responds \<lparr>resp_text = [], status_code = 204\<rparr>),
       calls =
         [\<lparr>meth = POST, url = ''http://10.0.0.5/api/files/local/part.gcode'',
           headers = Some [(''Content-Type'', ''application/json''), (''X-Api-Key'', ''K1'')],
           json = Some [(''command'', ''select'')]\<rparr>,
          \<lparr>meth = POST, url = ''http://10.0.0.5/api/job'',
           headers = Some [(''Content-Type'', ''application/json''), (''X-Api-Key'', ''K1'')],
           json = Some [(''command'', ''start'')]\<rparr>],
       logged = [], stdout = []\<rparr>)"
proof -
  have "length [''10.0.0.5''] < length [printer1, printer2]"
    by simp
  from run_commands_short_list [OF this] show ?thesis
    by (simp add: comp_simps client_simps run_command_def cell_def index_def andThen_def
          truth_of_method_def example_simps)
qed

text \<open>
  C9 as stated names \<^verbatim>\<open>IndexError\<close> as the exception of every run on a short command list.
  With two printers, one command and a network on which every call runs into the read
  timeout, the POST of \<^verbatim>\<open>selectPrintJob\<close> for the first printer raises \<^verbatim>\<open>ReadTimeout\<close>, which
  \<^verbatim>\<open>post\<close> does not catch: the loop ends with that exception, after the one call, before
  it reaches the position past the end of the list.
\<close>

theorem run_commands_short_list_read_timeout:
  "run_commands example_python [[''10.0.0.5''], [''print''], [''/api/files/local/part.gcode'']] 0
     [printer1, printer2] (fresh stalling)
   = (Inl ReadTimeout,
      \<lparr>network = stalling,
       calls =
         [\<lparr>meth = POST, url = ''http://10.0.0.5/api/files/local/part.gcode'',
           headers = Some [(''Content-Type'', ''application/json''), (''X-Api-Key'', ''K1'')],
           json = Some [(''command'', ''select'')]\<rparr>],
       logged = [], stdout = []\<rparr>)
   \<and> fst (run_commands example_python
            [[''10.0.0.5''], [''print''], [''/api/files/local/part.gcode'']] 0
            [printer1, printer2] (fresh stalling))
       \<noteq> Inl IndexError"
  by (simp add: comp_simps client_simps run_command_def cell_def index_def andThen_def
        truth_of_method_def printer1_def printer2_def fresh_def stalling_def)

text \<open>
  C8. The claim: a first line \<^verbatim>\<open>sep=,\<close> selects the comma as \<^verbatim>\<open>sep=;\<close> selects the
  semicolon. The code compares the first field that \<^verbatim>\<open>csv.reader\<close> returns with the
  marker, and \<^verbatim>\<open>csv.reader\<close> splits at commas: of the line \<^verbatim>\<open>sep=,\<close> it makes the two fields
  \<^verbatim>\<open>sep=\<close> and the empty string. Neither comparison holds, the sniffer is asked about the
  empty rest of the file, on which Python's sniffer raises \<^verbatim>\<open>csv.Error\<close>, and so does
  \<^verbatim>\<open>getCommandList\<close>.
\<close>

theorem getCommandList_comma_marker:
  "fst (getCommandList
         (py\<lparr>csv_reader := \<lambda>t. Inr ([''sep='', ''''] # rows), csv_sniff := \<lambda>t. Inl CsvError\<rparr>)
         path verbose (w, fs(path \<mapsto> content)))
   = Inl CsvError"
  by (simp add: getCommandList_def read_file_def on_world_def index_def andThen_def comp_simps)

text \<open>The marker \<^verbatim>\<open>sep=;\<close> survives the reader and is honoured.\<close>

lemma getCommandList_semicolon_marker:
  "fst (getCommandList (py\<lparr>csv_reader := \<lambda>t. Inr ([''sep=;''] # rows)\<rparr>)
         path False (w, fs(path \<mapsto> content)))
   = andThen (read_csv py content (CHR '';'') 1) (\<lambda>df.
     andThen (column df ''IP_Address'') (\<lambda>ipList.
     andThen (column df ''Command'') (\<lambda>commandList.
     andThen (column df ''Argument'') (\<lambda>argumentList.
       Inr [ipList, commandList, argumentList]))))"
  by (simp add: getCommandList_def read_file_def index_def andThen_def comp_simps
        split: sum.splits)

section \<open>The client\<close>

text \<open>
  C3. The claim: when the body of the answer to GET \<^verbatim>\<open>/api/printer\<close> is the text
  \<^verbatim>\<open>Printer is not operational\<close>, \<^verbatim>\<open>getPrinterStatus\<close> logs and returns \<^verbatim>\<open>None\<close>. The code
  calls \<^verbatim>\<open>json.loads\<close> on the body before it compares the text, so the call raises
  whatever \<^verbatim>\<open>json.loads\<close> raises on that text, and the branch that recovers is reached
  only if \<^verbatim>\<open>json.loads\<close> accepts it. The text is not JSON: Python's \<^verbatim>\<open>json.loads\<close>
  raises \<^verbatim>\<open>JSONDecodeError\<close> on it.
\<close>

theorem getPrinterStatus_not_operational:
  "fst (getPrinterStatus py opc
         (w\<lparr>network := \<lambda>k rq. Responds \<lparr>resp_text = ''Printer is not operational'', status_code = 409\<rparr>\<rparr>))
   = (case json_loads py ''Printer is not operational'' of Inl e \<Rightarrow> Inl e | Inr j \<Rightarrow> Inr None)"
  by (simp add: comp_simps client_simps split: sum.splits)

text \<open>
  The cases of \<^verbatim>\<open>isPrinterConnected\<close> that the code handles. When the controller answers
  and the answer holds a string at \<^verbatim>\<open>current.state\<close>, the result is \<^verbatim>\<open>True\<close> for
  \<^verbatim>\<open>"Operational"\<close> and \<^verbatim>\<open>False\<close> for any other string; when \<^verbatim>\<open>requests.get\<close> raises a
  \<^verbatim>\<open>ConnectionError\<close> (connection refused, host not found, connect timeout), the result is
  \<^verbatim>\<open>None\<close>. In these three cases the call returns normally.
\<close>

theorem isPrinterConnected_results:
  "(network w (length (calls w))
       \<lparr>meth = GET, url = ''http://'' @ ipAddress opc @ ''/api/connection'',
        headers = Some [(''X-Api-Key'', apiKey opc)], json = None\<rparr> = Responds r
     \<and> json_loads py (resp_text r) = Inr j
     \<and> andThen (getitem j ''current'') (\<lambda>c. getitem c ''state'') = Inr (PyStr ''Operational'')
     \<longrightarrow> fst (isPrinterConnected py opc w) = Inr (Some True))
   \<and>
   (network w (length (calls w))
       \<lparr>meth = GET, url = ''http://'' @ ipAddress opc @ ''/api/connection'',
        headers = Some [(''X-Api-Key'', apiKey opc)], json = None\<rparr> = Responds r
     \<and> json_loads py (resp_text r) = Inr j
     \<and> andThen (getitem j ''current'') (\<lambda>c. getitem c ''state'') = Inr (PyStr s)
     \<and> s \<noteq> ''Operational''
     \<longrightarrow> fst (isPrinterConnected py opc w) = Inr (Some False))
   \<and>
   (network w (length (calls w))
       \<lparr>meth = GET, url = ''http://'' @ ipAddress opc @ ''/api/connection'',
        headers = Some [(''X-Api-Key'', apiKey opc)], json = None\<rparr> = Throws e
     \<and> isinstance_ConnectionError e
     \<longrightarrow> fst (isPrinterConnected py opc w) = Inr None)"
  by (simp add: comp_simps client_simps)

text \<open>Instances of the three cases: an operational, a closed and a refusing controller.\<close>

theorem isPrinterConnected_results_witness:
  "fst (isPrinterConnected example_python printer1 (fresh (\<lambda>k rq. Responds operational_body)))
     = Inr (Some True)
   \<and> fst (isPrinterConnected example_python printer1 (fresh (\<lambda>k rq. Responds closed_body)))
     = Inr (Some False)
   \<and> fst (isPrinterConnected example_python printer1 (fresh refusing)) = Inr None"
proof -
  note a = isPrinterConnected_results [of "fresh (\<lambda>k rq. Responds operational_body)" printer1
      operational_body example_python
      "PyDict [(''current'', PyDict [(''state'', PyStr ''Operational'')])]" "''Closed''" ConnectionError]
  note b = isPrinterConnected_results [of "fresh (\<lambda>k rq. Responds closed_body)" printer1
      closed_body example_python
      "PyDict [(''current'', PyDict [(''state'', PyStr ''Closed'')])]" "''Closed''" ConnectionError]
  note c = isPrinterConnected_results [of "fresh refusing" printer1
      closed_body example_python
      "PyDict [(''current'', PyDict [(''state'', PyStr ''Closed'')])]" "''Closed''" ConnectionError]
  have "fst (isPrinterConnected example_python printer1 (fresh (\<lambda>k rq. Responds operational_body)))
     = Inr (Some True)"
    using a by (simp add: example_simps andThen_def)
  moreover have "fst (isPrinterConnected example_python printer1 (fresh (\<lambda>k rq. Responds closed_body)))
     = Inr (Some False)"
    using b by (simp add: example_simps andThen_def)
  moreover have "fst (isPrinterConnected example_python printer1 (fresh refusing)) = Inr None"
    using c by (simp add: example_simps)
  ultimately show ?thesis by simp
qed

text \<open>
  C2. The claim: \<^verbatim>\<open>isPrinterConnected\<close> returns \<^verbatim>\<open>True\<close>, \<^verbatim>\<open>False\<close> or, for every transport
  failure, timeouts included, \<^verbatim>\<open>None\<close>, and never raises. The code passes \<^verbatim>\<open>timeout=1\<close> to
  \<^verbatim>\<open>requests.get\<close> and catches \<^verbatim>\<open>ConnectionError\<close> only. A controller that accepts the
  connection and does not answer within the second makes \<^verbatim>\<open>requests.get\<close> raise
  \<^verbatim>\<open>ReadTimeout\<close>, which is not a \<^verbatim>\<open>ConnectionError\<close>: \<^verbatim>\<open>get\<close> does not catch it and the call
  raises, where the connect timeout beside it yields \<^verbatim>\<open>None\<close>.
\<close>

theorem isPrinterConnected_read_timeout:
  "fst (isPrinterConnected example_python printer1 (fresh stalling)) = Inl ReadTimeout"
  by (simp add: comp_simps client_simps example_simps)

section \<open>The status phase\<close>

lemma status_entry_unfold:
  "status_entry py verbose i opc (w, fs) =
     (case opcStatusString py opc w of
        (Inl e, w1) \<Rightarrow> (Inl e, (w1, fs))
      | (Inr st, w1) \<Rightarrow>
          (case report verbose opc (fst st) w1 of
             (r, w2) \<Rightarrow>
               (r, (w2, fs(path_statusCsv \<mapsto>
                            (case fs path_statusCsv of
                               None \<Rightarrow> snd st @ ''\<newline>''
                             | Some c \<Rightarrow> c @ snd st @ ''\<newline>''),
                          path_statusTxt i \<mapsto> opcStatusFields @ snd st)))))"
  by (simp add: status_entry_def emit_status_def bnd_def on_world_def write_file_def open_w_def
        path_statusTxt_not_csv split: prod.splits sum.splits)






text \<open>
  C6, as the code has it. When the connection request of a printer raises a
  \<^verbatim>\<open>ConnectionError\<close>, the loop body returns normally, the row appended to the table and
  written to the printer's file is the address followed by \<^verbatim>\<open>;None;;;;;;;;\<close> (the
  connected field is the text \<^verbatim>\<open>None\<close>, the other eight fields are empty), and three
  entries are logged, the last naming the printer's address.
\<close>

theorem status_entry_unreachable:
  "network w (length (calls w))
       \<lparr>meth = GET, url = ''http://'' @ ipAddress opc @ ''/api/connection'',
        headers = Some [(''X-Api-Key'', apiKey opc)], json = None\<rparr> = Throws e \<Longrightarrow>
   isinstance_ConnectionError e \<Longrightarrow>
   fs path_statusCsv = Some c \<Longrightarrow>
   fst (status_entry py verbose i opc (w, fs)) = Inr ()
   \<and> snd (snd (status_entry py verbose i opc (w, fs)))
       = fs(path_statusCsv \<mapsto> c @ ipAddress opc @ '';None;;;;;;;;'' @ ''\<newline>'',
            path_statusTxt i \<mapsto> opcStatusFields @ ipAddress opc @ '';None;;;;;;;;'')
   \<and> logged (fst (snd (status_entry py verbose i opc (w, fs))))
       = logged w @ [LogMsg ''Cannot connect to Raspberry Pi'', LogExc e,
                     LogMsg (ipAddress opc @ '' isPrinterConnected response: No connection to Pi'')]"
  by (simp add: status_entry_unfold opcStatusString_def not_connected_row_def report_def
        comp_simps client_simps)

text \<open>An instance: the printer of the scenario on a network that refuses every connection.\<close>

theorem status_entry_unreachable_witness:
  "snd (snd (status_entry example_python False 0 printer1
              (fresh refusing, [path_statusCsv \<mapsto> opcStatusFields])))
     = [path_statusCsv \<mapsto> opcStatusFields @ ''10.0.0.5;None;;;;;;;;\<newline>'',
        path_statusTxt 0 \<mapsto> opcStatusFields @ ''10.0.0.5;None;;;;;;;;'']
   \<and> logged (fst (snd (status_entry example_python False 0 printer1
              (fresh refusing, [path_statusCsv \<mapsto> opcStatusFields]))))
     = [LogMsg ''Cannot connect to Raspberry Pi'', LogExc ConnectionError,
        LogMsg ''10.0.0.5 isPrinterConnected response: No connection to Pi'']"
proof -
  have "network (fresh refusing) (length (calls (fresh refusing)))
       \<lparr>meth = GET, url = ''http://'' @ ipAddress printer1 @ ''/api/connection'',
        headers = Some [(''X-Api-Key'', apiKey printer1)], json = None\<rparr> = Throws ConnectionError"
    by (simp add: example_simps)
  moreover have "isinstance_ConnectionError ConnectionError"
    by simp
  moreover have "[path_statusCsv \<mapsto> opcStatusFields] path_statusCsv = Some opcStatusFields"
    by simp
  ultimately show ?thesis
    using status_entry_unreachable [of "fresh refusing" printer1 ConnectionError
        "[path_statusCsv \<mapsto> opcStatusFields]" opcStatusFields example_python False 0]
    by (simp add: example_simps)
qed

text \<open>
  C6 as stated expects the row \<^verbatim>\<open>10.0.0.5;False;;;;;;;;\<close> for the unreachable printer. The
  row written has \<^verbatim>\<open>None\<close> in the connected field.
\<close>

theorem unreachable_row_is_None:
  "snd (snd (updatePrinterStatus example_python False [printer1] (fresh refusing, Map.empty)))
     path_statusCsv
   = Some (opcStatusFields @ ''10.0.0.5;None;;;;;;;;\<newline>'')
   \<and>
   snd (snd (updatePrinterStatus example_python False [printer1] (fresh refusing, Map.empty)))
     path_statusCsv
   \<noteq> Some (opcStatusFields @ ''10.0.0.5;False;;;;;;;;\<newline>'')"
  by (simp add: updatePrinterStatus_def open_w_def write_file_def path_statusTxt_not_csv
        status_entry_unfold opcStatusString_def not_connected_row_def report_def
        comp_simps client_simps example_simps)

lemma path_statusTxt_0: "path_statusTxt 0 = ''PrinterStatus/printer0.txt''"
proof -
  have "str_nat 0 = ''0''" by code_simp
  then show ?thesis by (simp add: path_statusTxt_def)
qed

text \<open>
  C7. A registry of the one printer \<^verbatim>\<open>10.0.0.5\<close>, whose controller reports the state
  \<^verbatim>\<open>Operational\<close>, the flags printing, pausing, paused, finishing false and ready,
  operational true, and the temperatures 60.2 (bed) and 210.0 (tool0): the status phase
  returns normally and writes exactly the row
  \<^verbatim>\<open>10.0.0.5;True;False;True;True;False;False;False;60.2;210.0\<close> under the header, to the
  table and to \<^verbatim>\<open>printer0.txt\<close>. (The body of the status answer is JSON, so it is not the
  text \<^verbatim>\<open>Printer is not operational\<close>.)
\<close>

theorem updatePrinterStatus_operational:
  assumes ip: "ipAddress opc = ''10.0.0.5''"
    and conn: "network w (length (calls w))
         \<lparr>meth = GET, url = ''http://10.0.0.5/api/connection'',
          headers = Some [(''X-Api-Key'', apiKey opc)], json = None\<rparr> = Responds r1"
    and conn_json: "json_loads py (resp_text r1) = Inr c"
    and state: "andThen (getitem c ''current'') (\<lambda>x. getitem x ''state'') = Inr (PyStr ''Operational'')"
    and stat: "network w (Suc (length (calls w)))
         \<lparr>meth = GET, url = ''http://10.0.0.5/api/printer'',
          headers = Some [(''X-Api-Key'', apiKey opc)], json = None\<rparr> = Responds r2"
    and stat_text: "resp_text r2 \<noteq> ''Printer is not operational''"
    and stat_json: "json_loads py (resp_text r2) = Inr p"
    and flags: "flag p ''printing'' = Inr (PyBool False)" "flag p ''ready'' = Inr (PyBool True)"
      "flag p ''operational'' = Inr (PyBool True)" "flag p ''pausing'' = Inr (PyBool False)"
      "flag p ''paused'' = Inr (PyBool False)" "flag p ''finishing'' = Inr (PyBool False)"
    and temps: "actual p ''bed'' = Inr (PyFloat ''60.2'')" "actual p ''tool0'' = Inr (PyFloat ''210.0'')"
  shows "fst (updatePrinterStatus py verbose [opc] (w, fs)) = Inr ()
    \<and> snd (snd (updatePrinterStatus py verbose [opc] (w, fs))) path_statusCsv
      = Some (opcStatusFields @
              ''10.0.0.5;True;False;True;True;False;False;False;60.2;210.0'' @ ''\<newline>'')
    \<and> snd (snd (updatePrinterStatus py verbose [opc] (w, fs))) ''PrinterStatus/printer0.txt''
      = Some (opcStatusFields @ ''10.0.0.5;True;False;True;True;False;False;False;60.2;210.0'')"
proof -
  have poll: "isPrinterConnected py opc w =
      (Inr (Some True), w\<lparr>calls := calls w @
         [\<lparr>meth = GET, url = ''http://10.0.0.5/api/connection'',
           headers = Some [(''X-Api-Key'', apiKey opc)], json = None\<rparr>]\<rparr>)"
    using ip conn conn_json state by (simp add: comp_simps client_simps)
  have row: "connected_row py opc (Some True) p
      = Inr ''10.0.0.5;True;False;True;True;False;False;False;60.2;210.0''"
    using ip flags temps by (simp add: connected_row_def andThen_def)
  have st: "fst (opcStatusString py opc w)
      = Inr (Some (resp_text r2), ''10.0.0.5;True;False;True;True;False;False;False;60.2;210.0'')"
    using ip stat stat_text stat_json row
    by (simp add: opcStatusString_def poll getPrinterStatus_def get_def comp_simps loads_def)
  obtain w1 where st': "opcStatusString py opc w
      = (Inr (Some (resp_text r2), ''10.0.0.5;True;False;True;True;False;False;False;60.2;210.0''), w1)"
    using st by (cases "opcStatusString py opc w") auto
  show ?thesis
    by (simp add: updatePrinterStatus_def open_w_def write_file_def path_statusTxt_not_csv
          status_entry_unfold st' report_def comp_simps path_statusTxt_0 [symmetric])
qed

text \<open>An instance: the bodies of the scenario, read by the example library.\<close>

theorem updatePrinterStatus_operational_witness:
  "fst (updatePrinterStatus example_python False [printer1] (fresh healthy, Map.empty)) = Inr ()
   \<and> snd (snd (updatePrinterStatus example_python False [printer1] (fresh healthy, Map.empty)))
       path_statusCsv
     = Some (opcStatusFields @
             ''10.0.0.5;True;False;True;True;False;False;False;60.2;210.0\<newline>'')
   \<and> snd (snd (updatePrinterStatus example_python False [printer1] (fresh healthy, Map.empty)))
       ''PrinterStatus/printer0.txt''
     = Some (opcStatusFields @ ''10.0.0.5;True;False;True;True;False;False;False;60.2;210.0'')"
proof -
  have flags: "flag status_value ''printing'' = Inr (PyBool False)"
    "flag status_value ''ready'' = Inr (PyBool True)"
    "flag status_value ''operational'' = Inr (PyBool True)"
    "flag status_value ''pausing'' = Inr (PyBool False)"
    "flag status_value ''paused'' = Inr (PyBool False)"
    "flag status_value ''finishing'' = Inr (PyBool False)"
    by (simp_all add: flag_def andThen_def status_value_def)
  have temps: "actual status_value ''bed'' = Inr (PyFloat ''60.2'')"
    "actual status_value ''tool0'' = Inr (PyFloat ''210.0'')"
    by (simp_all add: actual_def andThen_def status_value_def)
  have "ipAddress printer1 = ''10.0.0.5''"
    by (simp add: printer1_def)
  moreover have "network (fresh healthy) (length (calls (fresh healthy)))
         \<lparr>meth = GET, url = ''http://10.0.0.5/api/connection'',
          headers = Some [(''X-Api-Key'', apiKey printer1)], json = None\<rparr> = Responds operational_body"
    by (simp add: fresh_def healthy_def)
  moreover have "json_loads example_python (resp_text operational_body)
      = Inr (PyDict [(''current'', PyDict [(''state'', PyStr ''Operational'')])])"
    by (simp add: example_python_def)
  moreover have "andThen (getitem (PyDict [(''current'', PyDict [(''state'', PyStr ''Operational'')])])
         ''current'') (\<lambda>x. getitem x ''state'') = Inr (PyStr ''Operational'')"
    by (simp add: andThen_def)
  moreover have "network (fresh healthy) (Suc (length (calls (fresh healthy))))
         \<lparr>meth = GET, url = ''http://10.0.0.5/api/printer'',
          headers = Some [(''X-Api-Key'', apiKey printer1)], json = None\<rparr> = Responds status_body"
    by (simp add: fresh_def healthy_def)
  moreover have "resp_text status_body \<noteq> ''Printer is not operational''"
    by (simp add: status_body_def)
  moreover have "json_loads example_python (resp_text status_body) = Inr status_value"
    by (simp add: example_python_def status_body_def operational_body_def closed_body_def)
  ultimately have
    "fst (updatePrinterStatus example_python False [printer1] (fresh healthy, Map.empty)) = Inr ()
     \<and> snd (snd (updatePrinterStatus example_python False [printer1] (fresh healthy, Map.empty)))
         path_statusCsv
       = Some (opcStatusFields @
               ''10.0.0.5;True;False;True;True;False;False;False;60.2;210.0'' @ ''\<newline>'')
     \<and> snd (snd (updatePrinterStatus example_python False [printer1] (fresh healthy, Map.empty)))
         ''PrinterStatus/printer0.txt''
       = Some (opcStatusFields @ ''10.0.0.5;True;False;True;True;False;False;False;60.2;210.0'')"
    using flags temps
    by (rule updatePrinterStatus_operational)
  then show ?thesis
    by simp
qed

text \<open>
  C4. The claim: a run over N printers writes N rows whatever fails at single printers.
  Here the first of two printers reports itself connected and its status request then
  fails with a \<^verbatim>\<open>ConnectionError\<close>: \<^verbatim>\<open>getPrinterStatus\<close> logs and returns \<^verbatim>\<open>None\<close>,
  \<^verbatim>\<open>json.loads(None)\<close> raises \<^verbatim>\<open>TypeError\<close>, and the exception leaves \<^verbatim>\<open>updatePrinterStatus\<close>
  with the header written and no row at all.
\<close>

theorem status_fetch_failure_aborts:
  "fst (updatePrinterStatus example_python False [printer1, printer2]
         (fresh status_unreachable, Map.empty)) = Inl TypeError
   \<and> snd (snd (updatePrinterStatus example_python False [printer1, printer2]
         (fresh status_unreachable, Map.empty))) path_statusCsv = Some opcStatusFields
   \<and> status_rows example_python False [printer1, printer2] (fresh status_unreachable) = []"
  by (simp add: updatePrinterStatus_def open_w_def write_file_def path_statusTxt_not_csv
        status_entry_unfold opcStatusString_def loads_def andThen_def
        comp_simps client_simps example_simps)

end
